theory Spec2Isabelle
  imports Complex_Main
begin

section \<open>The dashboard logic of \<^verbatim>\<open>src/public/app.js\<close>\<close>

text \<open>
  The script polls a status endpoint, fetches a filtered scan, builds one card per
  result and opens a detail modal for one symbol. The model keeps the script's own
  structure: each nested accessor is a fallible member access, each \<^verbatim>\<open>||\<close> and
  \<^verbatim>\<open>?.\<close> is the operator it is in JavaScript, each \<^verbatim>\<open>try\<close> block is a function
  that returns the page as it stands when the block ends or throws, and the
  \<^verbatim>\<open>catch\<close> clause works on that page.
\<close>

subsection \<open>JavaScript values and operators\<close>

text \<open>
  What a \<^verbatim>\<open>try\<close> block of the script can catch: a rejected \<^verbatim>\<open>fetch\<close>, a body
  that \<^verbatim>\<open>response.json()\<close> cannot parse, and a member access or method call on
  \<^verbatim>\<open>undefined\<close> or \<^verbatim>\<open>null\<close>.
\<close>

datatype js_error = NetworkError | DecodeError | TypeError

text \<open>
  Numbers. A finite number is the rational it denotes and arithmetic on finite numbers
  is exact: the rounding and the overflow of IEEE doubles are not modelled. \<open>NaN\<close> is
  what \<^verbatim>\<open>undefined\<close> becomes under \<^verbatim>\<open>*\<close> and \<^verbatim>\<open>/\<close>.
\<close>

datatype jsnum = NaN | Fin rat

text \<open>
  A value that may be \<^verbatim>\<open>undefined\<close> is an \<open>option\<close>; \<open>None\<close> is \<^verbatim>\<open>undefined\<close>
  (a key that the decoded JSON object does not have).
\<close>

text \<open>The member access \<^verbatim>\<open>obj.field\<close>: a TypeError when \<^verbatim>\<open>obj\<close> is undefined.\<close>

definition get :: "'o option \<Rightarrow> ('o \<Rightarrow> 'a) \<Rightarrow> js_error + 'a" where
  "get obj field = (case obj of None \<Rightarrow> Inl TypeError | Some x \<Rightarrow> Inr (field x))"

text \<open>Sequencing: an exception skips the rest.\<close>

definition bindE :: "js_error + 'a \<Rightarrow> ('a \<Rightarrow> js_error + 'b) \<Rightarrow> js_error + 'b" where
  "bindE m k = (case m of Inl e \<Rightarrow> Inl e | Inr v \<Rightarrow> k v)"

text \<open>\<^verbatim>\<open>a || b\<close> on objects: every object is truthy.\<close>

definition lor_obj :: "'o option \<Rightarrow> 'o option \<Rightarrow> 'o option" where
  "lor_obj a b = (case a of None \<Rightarrow> b | Some x \<Rightarrow> Some x)"

definition truthy_num :: "jsnum \<Rightarrow> bool" where
  "truthy_num v = (case v of NaN \<Rightarrow> False | Fin x \<Rightarrow> x \<noteq> 0)"

text \<open>\<^verbatim>\<open>a || b\<close> on numbers: undefined, 0 and NaN are falsy.\<close>

definition lor_num :: "jsnum option \<Rightarrow> jsnum option \<Rightarrow> jsnum option" where
  "lor_num a b = (case a of None \<Rightarrow> b | Some v \<Rightarrow> if truthy_num v then Some v else b)"

text \<open>\<^verbatim>\<open>a || b\<close> on strings: undefined and the empty string are falsy.\<close>

definition lor_str :: "string option \<Rightarrow> string option \<Rightarrow> string option" where
  "lor_str a b = (case a of None \<Rightarrow> b | Some s \<Rightarrow> if s = [] then b else Some s)"

definition truthy_bool :: "bool option \<Rightarrow> bool" where
  "truthy_bool a = (case a of None \<Rightarrow> False | Some b \<Rightarrow> b)"

text \<open>The operand conversion of \<^verbatim>\<open>*\<close>, \<^verbatim>\<open>/\<close> and \<^verbatim>\<open>>\<close>: undefined becomes NaN.\<close>

definition toNumber :: "jsnum option \<Rightarrow> jsnum" where
  "toNumber a = (case a of None \<Rightarrow> NaN | Some v \<Rightarrow> v)"

text \<open>\<^verbatim>\<open>x * 100\<close>.\<close>

definition times_100 :: "jsnum \<Rightarrow> jsnum" where
  "times_100 v = (case v of NaN \<Rightarrow> NaN | Fin x \<Rightarrow> Fin (x * 100))"

text \<open>\<^verbatim>\<open>x / 1e9\<close>.\<close>

definition divide_1e9 :: "jsnum \<Rightarrow> jsnum" where
  "divide_1e9 v = (case v of NaN \<Rightarrow> NaN | Fin x \<Rightarrow> Fin (x / 10 ^ 9))"

text \<open>\<^verbatim>\<open>x >= c\<close>: false on NaN.\<close>

definition js_ge :: "jsnum \<Rightarrow> rat \<Rightarrow> bool" where
  "js_ge v c = (case v of NaN \<Rightarrow> False | Fin x \<Rightarrow> c \<le> x)"

text \<open>\<^verbatim>\<open>x > c\<close>: false on NaN.\<close>

definition js_gt :: "jsnum \<Rightarrow> rat \<Rightarrow> bool" where
  "js_gt v c = (case v of NaN \<Rightarrow> False | Fin x \<Rightarrow> c < x)"

text \<open>A string value interpolated into a template literal.\<close>

definition to_text :: "string option \<Rightarrow> string" where
  "to_text a = (case a of None \<Rightarrow> ''undefined'' | Some s \<Rightarrow> s)"

subsection \<open>\<^verbatim>\<open>Number.prototype.toFixed\<close>\<close>

function dec_digits :: "nat \<Rightarrow> string" where
  "dec_digits n =
     (if n < 10 then [''0123456789'' ! n]
      else dec_digits (n div 10) @ [''0123456789'' ! (n mod 10)])"
  by pat_completeness auto
termination
  by (relation "measure (\<lambda>n. n)") auto

declare dec_digits.simps [simp del]

text \<open>
  ECMA-262, Number.prototype.toFixed, for \<open>0 \<le> x < 10\<^sup>2\<^sup>1\<close>: \<open>n\<close> is the integer
  nearest to \<open>x * 10 ^ f\<close>, the larger one at a tie; its digits are padded with
  zeros to \<open>f + 1\<close> places and the point goes before the last \<open>f\<close> of them.
\<close>

definition fixed_digits :: "nat \<Rightarrow> rat \<Rightarrow> string" where
  "fixed_digits f x =
     (let n = nat \<lfloor>x * 10 ^ f + 1 / 2\<rfloor>;
          m = (if n = 0 then ''0'' else dec_digits n);
          k = length m;
          m' = (if k \<le> f then replicate (f + 1 - k) (CHR ''0'') @ m else m);
          k' = (if k \<le> f then f + 1 else k)
      in if f \<noteq> 0 then take (k' - f) m' @ ''.'' @ drop (k' - f) m' else m)"

text \<open>
  From \<open>10\<^sup>2\<^sup>1\<close> on, toFixed returns what the engine's Number::toString returns
  (exponent notation). That function belongs to the JavaScript runtime, not to this
  repository; it is the parameter \<open>numberToString\<close> of everything that formats.
\<close>

definition toFixed :: "(rat \<Rightarrow> string) \<Rightarrow> nat \<Rightarrow> jsnum \<Rightarrow> string" where
  "toFixed numberToString f v =
     (case v of
        NaN \<Rightarrow> ''NaN''
      | Fin x0 \<Rightarrow>
          (let s = (if x0 < 0 then ''-'' else []);
               x = (if x0 < 0 then - x0 else x0)
           in if 10 ^ 21 \<le> x then s @ numberToString x else s @ fixed_digits f x))"

text \<open>\<^verbatim>\<open>x.toFixed(f)\<close>: a TypeError when \<^verbatim>\<open>x\<close> is undefined.\<close>

definition call_toFixed ::
  "(rat \<Rightarrow> string) \<Rightarrow> jsnum option \<Rightarrow> nat \<Rightarrow> js_error + string" where
  "call_toFixed numberToString a f =
     (case a of None \<Rightarrow> Inl TypeError | Some v \<Rightarrow> Inr (toFixed numberToString f v))"

text \<open>\<^verbatim>\<open>x?.toFixed(f)\<close>: undefined when \<^verbatim>\<open>x\<close> is undefined.\<close>

definition opt_toFixed ::
  "(rat \<Rightarrow> string) \<Rightarrow> jsnum option \<Rightarrow> nat \<Rightarrow> string option" where
  "opt_toFixed numberToString a f =
     (case a of None \<Rightarrow> None | Some v \<Rightarrow> Some (toFixed numberToString f v))"

subsection \<open>The data model\<close>

record Technicals =
  relative_volume :: "jsnum option"
  trend :: "string option"

record Institutional =
  outlook :: "string option"

text \<open>\<open>fin_score\<close> is the key \<^verbatim>\<open>score\<close> of \<^verbatim>\<open>financials\<close>.\<close>

record Financials =
  sector :: "string option"
  fin_score :: "jsnum option"
  pe :: "jsnum option"
  debt_equity :: "jsnum option"
  roe :: "jsnum option"
  market_cap :: "jsnum option"
  stability :: "string option"

record StockDetails =
  technicals :: "Technicals option"
  institutional :: "Institutional option"
  financials :: "Financials option"

record StockSummary =
  symbol :: string
  score :: jsnum
  details :: "StockDetails option"

record StockAnalysis = StockSummary +
  passed_financials :: bool

text \<open>The object literal \<^verbatim>\<open>{}\<close> at each of the types it is read at.\<close>

definition empty_details :: StockDetails where
  "empty_details = \<lparr>technicals = None, institutional = None, financials = None\<rparr>"

definition empty_technicals :: Technicals where
  "empty_technicals = \<lparr>relative_volume = None, trend = None\<rparr>"

definition empty_institutional :: Institutional where
  "empty_institutional = \<lparr>outlook = None\<rparr>"

definition empty_financials :: Financials where
  "empty_financials =
     \<lparr>sector = None, fin_score = None, pe = None, debt_equity = None, roe = None,
      market_cap = None, stability = None\<rparr>"

subsection \<open>The summary card (\<^verbatim>\<open>fetchStocks\<close>, the body of \<^verbatim>\<open>forEach\<close>)\<close>

text \<open>
  The card's markup is a fixed template; a card is the values interpolated into it, in
  the template's order. A number interpolated as it is stays a number.
\<close>

record Card =
  c_symbol :: string
  c_score :: jsnum
  c_sector :: string
  c_finColor :: string
  c_finScore :: "jsnum option"
  c_rvol :: string
  c_reasoning :: string
  c_onclick :: string

definition summaryCard :: "(rat \<Rightarrow> string) \<Rightarrow> StockSummary \<Rightarrow> js_error + Card" where
  "summaryCard numberToString stock =
     bindE (get (Some stock) details) (\<lambda>d.
     let details = lor_obj d (Some empty_details) in
     bindE (get details technicals) (\<lambda>t.
     let technicals = lor_obj t (Some empty_technicals) in
     bindE (get details institutional) (\<lambda>i.
     let institutional = lor_obj i (Some empty_institutional) in
     bindE (get details financials) (\<lambda>f.
     let financials = lor_obj f (Some empty_financials) in
     bindE (get technicals relative_volume) (\<lambda>rv.
     let rvol = lor_num rv (Some (Fin 1)) in
     bindE (get financials sector) (\<lambda>sec.
     let sector = lor_str sec (Some ''Market'') in
     bindE (get financials fin_score) (\<lambda>fs.
     let finScore = lor_num fs (Some (Fin 0)) in
     bindE (get (Some stock) symbol) (\<lambda>sym.
     bindE (get (Some stock) score) (\<lambda>sc.
     bindE (call_toFixed numberToString rvol 2) (\<lambda>rvol_text.
     bindE (get technicals trend) (\<lambda>tr.
     Inr \<lparr>c_symbol = sym,
          c_score = sc,
          c_sector = to_text sector,
          c_finColor = (if js_gt (toNumber finScore) 70 then ''var(--success)'' else ''inherit''),
          c_finScore = finScore,
          c_rvol = rvol_text,
          c_reasoning =
            to_text (lor_str tr (Some ''Posicionamiento Institucional'')) @ '' detectado.'',
          c_onclick = sym\<rparr>)))))))))))"

subsection \<open>The detail layout (\<^verbatim>\<open>showStockDetail\<close>, the template of the modal body)\<close>

text \<open>The Spanish fallback text; its accented letter is two bytes of UTF-8.\<close>

definition outlook_fallback :: string where
  "outlook_fallback = ''An'' @ [CHR 0xC3, CHR 0xA1] @ ''lisis en proceso...''"

record DetailView =
  v_symbol :: string
  v_sector :: string
  v_score :: jsnum
  v_outlook :: string
  v_rvol :: string
  v_trend :: string
  v_stability :: string
  v_pe :: string
  v_debt_equity :: string
  v_roe :: string
  v_market_cap :: string
  v_banner :: string

definition detailView ::
  "(rat \<Rightarrow> string) \<Rightarrow> StockAnalysis option \<Rightarrow> js_error + DetailView" where
  "detailView numberToString data =
     bindE (get data details) (\<lambda>d.
     let details = lor_obj d (Some empty_details) in
     bindE (get details technicals) (\<lambda>t.
     let technicals = lor_obj t (Some empty_technicals) in
     bindE (get details financials) (\<lambda>f.
     let financials = lor_obj f (Some empty_financials) in
     bindE (get details institutional) (\<lambda>i.
     let institutional = lor_obj i (Some empty_institutional) in
     bindE (get data symbol) (\<lambda>sym.
     bindE (get financials sector) (\<lambda>sec.
     bindE (get data score) (\<lambda>sc.
     bindE (get institutional outlook) (\<lambda>ol.
     bindE (get technicals relative_volume) (\<lambda>rv.
     bindE (get technicals trend) (\<lambda>tr.
     bindE (get financials stability) (\<lambda>st.
     bindE (get financials pe) (\<lambda>pe_v.
     bindE (get financials debt_equity) (\<lambda>de.
     bindE (get financials roe) (\<lambda>roe_v.
     bindE (get financials market_cap) (\<lambda>mc.
     bindE (call_toFixed numberToString (Some (divide_1e9 (toNumber mc))) 1) (\<lambda>mc_text.
     bindE (get data passed_financials) (\<lambda>passed.
     Inr \<lparr>v_symbol = sym,
          v_sector = to_text (lor_str sec (Some ''N/A'')),
          v_score = sc,
          v_outlook = to_text (lor_str ol (Some outlook_fallback)),
          v_rvol = to_text (lor_str (opt_toFixed numberToString rv 2) (Some ''1.00'')),
          v_trend = to_text (lor_str tr (Some ''Neutral'')),
          v_stability = to_text (lor_str st (Some ''Media'')),
          v_pe = to_text (lor_str (opt_toFixed numberToString pe_v 1) (Some ''N/A'')),
          v_debt_equity = to_text (lor_str (opt_toFixed numberToString de 2) (Some ''N/A'')),
          v_roe =
            to_text
              (lor_str (opt_toFixed numberToString (Some (times_100 (toNumber roe_v))) 1)
                 (Some ''0''))
            @ ''%'',
          v_market_cap = mc_text @ ''B'',
          v_banner =
            (if passed then ''PASSED FUNDAMENTAL CHECK'' else ''RISKY FUNDAMENTALS'')\<rparr>
     )))))))))))))))))"


subsection \<open>The page and the network\<close>

text \<open>
  The modal body holds either literal markup or the detail layout. The page is the part
  of the document the script writes (one field per element it looks up by id), the
  console, and the URLs requested so far.
\<close>

datatype modal_body = Markup string | DetailLayout DetailView

record Page =
  totalIndexed :: string
  workerState :: string
  workerState_scanning :: bool
  scanProgressText :: string
  stocksGrid :: "Card list"
  opportunityCount :: string
  stockModal_display :: string
  modalBody :: modal_body
  console :: "(string \<times> js_error) list"
  requests :: "string list"

text \<open>
  What comes back for a request: \<^verbatim>\<open>fetch\<close> rejects, or \<^verbatim>\<open>response.json()\<close>
  rejects, or the body decodes (\<open>None\<close> is the JSON value \<^verbatim>\<open>null\<close>). The backend is
  not part of the script: it is the parameter \<open>net\<close>, from the URL to what comes back.
\<close>

datatype 'a response = FetchRejected | JsonRejected | Json "'a option"

definition await_json :: "'a response \<Rightarrow> js_error + 'a option" where
  "await_json r =
     (case r of
        FetchRejected \<Rightarrow> Inl NetworkError
      | JsonRejected \<Rightarrow> Inl DecodeError
      | Json data \<Rightarrow> Inr data)"

definition API_BASE :: string where
  "API_BASE = ''/api''"

text \<open>The fields of the decoded bodies are optional, so that a body of another shape is a value.\<close>

record Worker =
  is_running :: "bool option"
  last_run :: "string option"

record SystemStatus =
  db_status :: "string option"
  worker :: "Worker option"

record ScanData =
  results :: "StockSummary list option"

subsection \<open>String and array methods\<close>

text \<open>\<^verbatim>\<open>s.split(sep)\<close> returns at least one part: the first part and the others.\<close>

fun split_js :: "char \<Rightarrow> string \<Rightarrow> string \<times> string list" where
  "split_js sep [] = ([], [])"
| "split_js sep (c # cs) =
     (let (part, parts) = split_js sep cs
      in if c = sep then ([], part # parts) else (c # part, parts))"

definition call_split :: "string option \<Rightarrow> char \<Rightarrow> js_error + string \<times> string list" where
  "call_split a sep = (case a of None \<Rightarrow> Inl TypeError | Some s \<Rightarrow> Inr (split_js sep s))"

fun js_includes :: "string \<Rightarrow> string \<Rightarrow> bool" where
  "js_includes [] sub = (sub = [])"
| "js_includes (c # cs) sub = (take (length sub) (c # cs) = sub \<or> js_includes cs sub)"

definition call_includes :: "string option \<Rightarrow> string \<Rightarrow> js_error + bool" where
  "call_includes a sub = (case a of None \<Rightarrow> Inl TypeError | Some s \<Rightarrow> Inr (js_includes s sub))"

definition call_filter :: "'a list option \<Rightarrow> ('a \<Rightarrow> bool) \<Rightarrow> js_error + 'a list" where
  "call_filter a keep = (case a of None \<Rightarrow> Inl TypeError | Some xs \<Rightarrow> Inr (filter keep xs))"

subsection \<open>\<^verbatim>\<open>fetchHome\<close>\<close>

text \<open>
  The \<^verbatim>\<open>try\<close> block: the exception it ends with, if any, and the page at that
  moment. Both arms of the conditional that computes \<^verbatim>\<open>lastRun\<close> read the same field.
\<close>

definition fetchHome_try ::
  "(string \<Rightarrow> SystemStatus response) \<Rightarrow> Page \<Rightarrow> js_error option \<times> Page" where
  "fetchHome_try net p0 =
     (let url = API_BASE @ ''/status'';
          p = p0\<lparr>requests := requests p0 @ [url]\<rparr>
      in case await_json (net url) of Inl e \<Rightarrow> (Some e, p) | Inr data \<Rightarrow>
         case get data db_status of Inl e \<Rightarrow> (Some e, p) | Inr dbs \<Rightarrow>
         case call_split dbs (CHR '' '') of Inl e \<Rightarrow> (Some e, p) | Inr parts \<Rightarrow>
         let p1 = p\<lparr>totalIndexed := fst parts\<rparr>
         in case get data worker of Inl e \<Rightarrow> (Some e, p1) | Inr w \<Rightarrow>
            case get w is_running of Inl e \<Rightarrow> (Some e, p1) | Inr running \<Rightarrow>
            let p2 = p1\<lparr>workerState := (if truthy_bool running then ''SCANNING'' else ''IDLE'')\<rparr>
            in if truthy_bool running
               then (None, p2\<lparr>scanProgressText := ''Stock Analysis in Progress...'',
                               workerState_scanning := True\<rparr>)
               else
                 case get w last_run of Inl e \<Rightarrow> (Some e, p2) | Inr lr \<Rightarrow>
                 case call_includes lr ''GMT'' of Inl e \<Rightarrow> (Some e, p2) | Inr gmt \<Rightarrow>
                 let lastRun = (if gmt then lr else lr)
                 in (None, p2\<lparr>scanProgressText := ''Last run: '' @ to_text lastRun,
                                 workerState_scanning := False\<rparr>))"

definition fetchHome :: "(string \<Rightarrow> SystemStatus response) \<Rightarrow> Page \<Rightarrow> Page" where
  "fetchHome net p0 =
     (case fetchHome_try net p0 of
        (None, p) \<Rightarrow> p
      | (Some e, p) \<Rightarrow> p\<lparr>console := console p @ [(''Error fetching status:'', e)]\<rparr>)"

subsection \<open>\<^verbatim>\<open>fetchStocks\<close>\<close>

text \<open>
  The argument is the value of the filter control, a string, or nothing at the initial
  load, where the default \<^verbatim>\<open>0\<close> is interpolated as \<^verbatim>\<open>0\<close>.
\<close>

definition scanUrl :: "string option \<Rightarrow> string" where
  "scanUrl minScore =
     (if minScore = Some ''darwinex''
      then API_BASE @ ''/scan-darwinex?limit=50&min_score=0''
      else API_BASE @ ''/scan?limit=50&min_score=''
             @ (case minScore of None \<Rightarrow> ''0'' | Some v \<Rightarrow> v))"

text \<open>\<^verbatim>\<open>forEach\<close>: an exception in the callback leaves the cards appended so far.\<close>

fun forEach_stock ::
  "(rat \<Rightarrow> string) \<Rightarrow> StockSummary list \<Rightarrow> Page \<Rightarrow> js_error option \<times> Page" where
  "forEach_stock numberToString [] p = (None, p)"
| "forEach_stock numberToString (stock # rest) p =
     (case summaryCard numberToString stock of
        Inl e \<Rightarrow> (Some e, p)
      | Inr c \<Rightarrow>
          forEach_stock numberToString rest (p\<lparr>stocksGrid := stocksGrid p @ [c]\<rparr>))"

definition fetchStocks_try ::
  "(rat \<Rightarrow> string) \<Rightarrow> (string \<Rightarrow> ScanData response) \<Rightarrow> string option \<Rightarrow> Page
     \<Rightarrow> js_error option \<times> Page" where
  "fetchStocks_try numberToString net minScore p0 =
     (let url = scanUrl minScore;
          p = p0\<lparr>requests := requests p0 @ [url]\<rparr>
      in case await_json (net url) of Inl e \<Rightarrow> (Some e, p) | Inr data \<Rightarrow>
         let p1 = p\<lparr>stocksGrid := []\<rparr>
         in case get data results of Inl e \<Rightarrow> (Some e, p1) | Inr rs \<Rightarrow>
            case call_filter rs (\<lambda>s. js_ge (score s) 75) of Inl e \<Rightarrow> (Some e, p1) | Inr opp \<Rightarrow>
            let p2 = p1\<lparr>opportunityCount := dec_digits (length opp)\<rparr>
            in case rs of
                 None \<Rightarrow> (Some TypeError, p2)
               | Some stocks \<Rightarrow> forEach_stock numberToString stocks p2)"

definition fetchStocks ::
  "(rat \<Rightarrow> string) \<Rightarrow> (string \<Rightarrow> ScanData response) \<Rightarrow> string option \<Rightarrow> Page \<Rightarrow> Page" where
  "fetchStocks numberToString net minScore p0 =
     (case fetchStocks_try numberToString net minScore p0 of
        (None, p) \<Rightarrow> p
      | (Some e, p) \<Rightarrow> p\<lparr>console := console p @ [(''Error fetching stocks:'', e)]\<rparr>)"

subsection \<open>\<^verbatim>\<open>showStockDetail\<close> and the handlers that close the modal\<close>

definition loading_html :: string where
  "loading_html = ''<p>Cargando an'' @ [CHR 0xC3, CHR 0xA1] @ ''lisis profundo...</p>''"

definition error_html :: string where
  "error_html = ''<p>Error al cargar los datos detallados.</p>''"

text \<open>
  Up to the first \<^verbatim>\<open>await\<close>: the placeholder, the modal shown, the request sent.
  Other handlers can run before the response arrives.
\<close>

definition showStockDetail_open :: "string \<Rightarrow> Page \<Rightarrow> Page" where
  "showStockDetail_open sy p0 =
     (let p1 = p0\<lparr>modalBody := Markup loading_html\<rparr>;
          p2 = p1\<lparr>stockModal_display := ''block''\<rparr>
      in p2\<lparr>requests := requests p2 @ [API_BASE @ ''/analyze/'' @ sy]\<rparr>)"

text \<open>
  From the response on. \<^verbatim>\<open>lucide.createIcons()\<close> is a call into an icon library that
  is not part of the script: \<open>icons\<close> is the exception it throws, if any.
\<close>

definition showStockDetail_try ::
  "(rat \<Rightarrow> string) \<Rightarrow> js_error option \<Rightarrow> StockAnalysis response \<Rightarrow> Page
     \<Rightarrow> js_error option \<times> Page" where
  "showStockDetail_try numberToString icons r p =
     (case await_json r of Inl e \<Rightarrow> (Some e, p) | Inr data \<Rightarrow>
      case detailView numberToString data of Inl e \<Rightarrow> (Some e, p) | Inr v \<Rightarrow>
      (icons, p\<lparr>modalBody := DetailLayout v\<rparr>))"

definition showStockDetail_settle ::
  "(rat \<Rightarrow> string) \<Rightarrow> js_error option \<Rightarrow> StockAnalysis response \<Rightarrow> Page \<Rightarrow> Page" where
  "showStockDetail_settle numberToString icons r p0 =
     (case showStockDetail_try numberToString icons r p0 of
        (None, p) \<Rightarrow> p
      | (Some e, p) \<Rightarrow> p\<lparr>modalBody := Markup error_html\<rparr>)"

definition showStockDetail ::
  "(rat \<Rightarrow> string) \<Rightarrow> js_error option \<Rightarrow> (string \<Rightarrow> StockAnalysis response) \<Rightarrow> string
     \<Rightarrow> Page \<Rightarrow> Page" where
  "showStockDetail numberToString icons net sy p =
     showStockDetail_settle numberToString icons (net (API_BASE @ ''/analyze/'' @ sy))
       (showStockDetail_open sy p)"

definition closeModal_onclick :: "Page \<Rightarrow> Page" where
  "closeModal_onclick p = p\<lparr>stockModal_display := ''none''\<rparr>"

text \<open>\<open>on_modal\<close>: the click's target is the modal element itself.\<close>

definition window_onclick :: "bool \<Rightarrow> Page \<Rightarrow> Page" where
  "window_onclick on_modal p = (if on_modal then p\<lparr>stockModal_display := ''none''\<rparr> else p)"

definition scoreFilter_onchange ::
  "(rat \<Rightarrow> string) \<Rightarrow> (string \<Rightarrow> ScanData response) \<Rightarrow> string \<Rightarrow> Page \<Rightarrow> Page" where
  "scoreFilter_onchange numberToString net v p = fetchStocks numberToString net (Some v) p"

subsection \<open>Reading a field along its path, and sample inputs\<close>

text \<open>
  \<^verbatim>\<open>details.financials.x\<close> read the way the specification speaks of it: absent when
  \<^verbatim>\<open>details\<close>, \<^verbatim>\<open>financials\<close> or the key itself is absent.
\<close>

definition financials_of :: "'a StockSummary_scheme \<Rightarrow> Financials option" where
  "financials_of s = Option.bind (details s) financials"

definition fin_field ::
  "(Financials \<Rightarrow> 'b option) \<Rightarrow> 'a StockSummary_scheme \<Rightarrow> 'b option" where
  "fin_field field s = Option.bind (financials_of s) field"

definition bare_stock :: StockSummary where
  "bare_stock = \<lparr>symbol = ''TSLA'', score = Fin 80, details = None\<rparr>"

definition bare_analysis :: StockAnalysis where
  "bare_analysis =
     \<lparr>symbol = ''AAPL'', score = Fin 82, details = None, passed_financials = True\<rparr>"


text \<open>
  The number of entries with a score of at least 75, as the specification counts
  opportunities: by recursion over the scores.
\<close>

fun opportunities :: "jsnum list \<Rightarrow> nat" where
  "opportunities [] = 0"
| "opportunities (NaN # rest) = opportunities rest"
| "opportunities (Fin x # rest) = (if 75 \<le> x then Suc (opportunities rest) else opportunities rest)"

definition sample_stocks :: "StockSummary list" where
  "sample_stocks =
     [\<lparr>symbol = ''A'', score = Fin 80, details = None\<rparr>,
      \<lparr>symbol = ''B'', score = Fin 74, details = None\<rparr>,
      \<lparr>symbol = ''C'', score = Fin 75, details = None\<rparr>,
      \<lparr>symbol = ''D'', score = Fin 90, details = None\<rparr>]"

definition sample_status :: SystemStatus where
  "sample_status =
     \<lparr>db_status = Some ''5000 stocks indexed'',
      worker = Some \<lparr>is_running = Some False, last_run = Some ''Mon, 01 Jan 2024 10:00:00 GMT''\<rparr>\<rparr>"

definition sample_page :: Page where
  "sample_page =
     \<lparr>totalIndexed = ''4000'', workerState = ''IDLE'', workerState_scanning = False,
      scanProgressText = ''Last run: yesterday'',
      stocksGrid =
        [\<lparr>c_symbol = ''MSFT'', c_score = Fin 91, c_sector = ''Technology'',
          c_finColor = ''inherit'', c_finScore = Some (Fin 60), c_rvol = ''1.20'',
          c_reasoning = ''Uptrend detectado.'', c_onclick = ''MSFT''\<rparr>],
      opportunityCount = ''7'', stockModal_display = ''none'', modalBody = Markup [],
      console = [], requests = []\<rparr>"

section \<open>Properties\<close>

subsection \<open>The operators on defined operands\<close>

lemma bindE_Inr [simp]: "bindE (Inr v) k = k v"
  by (simp add: bindE_def)

lemma get_Some [simp]: "get (Some x) field = Inr (field x)"
  by (simp add: get_def)

lemma get_undefined: "get None field = Inl TypeError"
  by (simp add: get_def)

lemma lor_obj_Some [simp]:
  "lor_obj a (Some b) = Some (case a of None \<Rightarrow> b | Some x \<Rightarrow> x)"
  by (simp add: lor_obj_def split: option.splits)

lemma lor_num_Some:
  "lor_num a (Some b) = Some (case a of None \<Rightarrow> b | Some v \<Rightarrow> if truthy_num v then v else b)"
  by (simp add: lor_num_def split: option.splits)

lemma call_toFixed_Some [simp]: "call_toFixed ts (Some v) f = Inr (toFixed ts f v)"
  by (simp add: call_toFixed_def)

lemma call_toFixed_undefined: "call_toFixed ts None f = Inl TypeError"
  by (simp add: call_toFixed_def)

lemma empty_financials_fields [simp]:
  "sector empty_financials = None" "fin_score empty_financials = None"
  "pe empty_financials = None" "debt_equity empty_financials = None"
  "roe empty_financials = None" "market_cap empty_financials = None"
  "stability empty_financials = None"
  by (simp_all add: empty_financials_def)

subsection \<open>\<^verbatim>\<open>toFixed\<close> at the values the fallbacks produce\<close>


lemma fixed_digits_2_0: "fixed_digits 2 0 = ''0.00''"
  by code_simp

lemma fixed_digits_2_1: "fixed_digits 2 1 = ''1.00''"
  by code_simp

lemma toFixed_NaN [simp]: "toFixed ts f NaN = ''NaN''"
  by (simp add: toFixed_def)


lemma toFixed_2_zero: "toFixed ts 2 (Fin 0) = ''0.00''"
  by (simp add: toFixed_def fixed_digits_2_0)

lemma toFixed_2_one: "toFixed ts 2 (Fin 1) = ''1.00''"
  by (simp add: toFixed_def fixed_digits_2_1)



subsection \<open>The two projections in closed form\<close>

text \<open>
  Behind its guards no accessor of the card throws: the card is the record below,
  whatever is missing.
\<close>

lemma summaryCard_Inr:
  "summaryCard ts stock =
     (let d = (case details stock of None \<Rightarrow> empty_details | Some x \<Rightarrow> x);
          t = (case technicals d of None \<Rightarrow> empty_technicals | Some x \<Rightarrow> x);
          f = (case financials d of None \<Rightarrow> empty_financials | Some x \<Rightarrow> x);
          rvol = (case relative_volume t of None \<Rightarrow> Fin 1
                  | Some v \<Rightarrow> if truthy_num v then v else Fin 1);
          finScore = (case fin_score f of None \<Rightarrow> Fin 0
                  | Some v \<Rightarrow> if truthy_num v then v else Fin 0)
      in Inr \<lparr>c_symbol = symbol stock,
              c_score = score stock,
              c_sector = to_text (lor_str (sector f) (Some ''Market'')),
              c_finColor = (if js_gt finScore 70 then ''var(--success)'' else ''inherit''),
              c_finScore = Some finScore,
              c_rvol = toFixed ts 2 rvol,
              c_reasoning =
                to_text (lor_str (trend t) (Some ''Posicionamiento Institucional''))
                @ '' detectado.'',
              c_onclick = symbol stock\<rparr>)"
  by (simp add: summaryCard_def Let_def lor_num_Some toNumber_def)

lemma detailView_Inr:
  "detailView ts (Some a) =
     (let d = (case details a of None \<Rightarrow> empty_details | Some x \<Rightarrow> x);
          t = (case technicals d of None \<Rightarrow> empty_technicals | Some x \<Rightarrow> x);
          f = (case financials d of None \<Rightarrow> empty_financials | Some x \<Rightarrow> x);
          i = (case institutional d of None \<Rightarrow> empty_institutional | Some x \<Rightarrow> x)
      in Inr \<lparr>v_symbol = symbol a,
              v_sector = to_text (lor_str (sector f) (Some ''N/A'')),
              v_score = score a,
              v_outlook = to_text (lor_str (outlook i) (Some outlook_fallback)),
              v_rvol = to_text (lor_str (opt_toFixed ts (relative_volume t) 2) (Some ''1.00'')),
              v_trend = to_text (lor_str (trend t) (Some ''Neutral'')),
              v_stability = to_text (lor_str (stability f) (Some ''Media'')),
              v_pe = to_text (lor_str (opt_toFixed ts (pe f) 1) (Some ''N/A'')),
              v_debt_equity = to_text (lor_str (opt_toFixed ts (debt_equity f) 2) (Some ''N/A'')),
              v_roe =
                to_text (lor_str (Some (toFixed ts 1 (times_100 (toNumber (roe f))))) (Some ''0''))
                @ ''%'',
              v_market_cap = toFixed ts 1 (divide_1e9 (toNumber (market_cap f))) @ ''B'',
              v_banner =
                (if passed_financials a then ''PASSED FUNDAMENTAL CHECK''
                 else ''RISKY FUNDAMENTALS'')\<rparr>)"
  by (simp add: detailView_def Let_def opt_toFixed_def)

text \<open>A body that decodes to \<^verbatim>\<open>null\<close> does throw, at the first accessor.\<close>

lemma detailView_null: "detailView ts None = Inl TypeError"
  by (simp add: detailView_def get_def bindE_def)

lemma guarded_field:
  "field empty_financials = None \<Longrightarrow>
   field (case financials (case details s of None \<Rightarrow> empty_details | Some x \<Rightarrow> x) of
            None \<Rightarrow> empty_financials | Some x \<Rightarrow> x) = fin_field field s"
  by (simp add: fin_field_def financials_of_def empty_details_def split: option.splits)

text \<open>A present market capitalisation is shown in billions, with one decimal and a B.\<close>

lemma market_cap_present:
  "fin_field market_cap a = Some (Fin x) \<Longrightarrow>
   \<exists>v. detailView ts (Some a) = Inr v \<and>
       v_market_cap v = toFixed ts 1 (Fin (x / 10 ^ 9)) @ ''B''"
  by (simp add: detailView_Inr Let_def guarded_field toNumber_def divide_1e9_def)

subsection \<open>The fetches step by step\<close>

lemma summaryCard_total: "\<exists>c. summaryCard ts stock = Inr c"
  by (simp add: summaryCard_Inr Let_def)

lemma forEach_stock_appends:
  "\<exists>cs. length cs = length xs \<and>
        forEach_stock ts xs p = (None, p\<lparr>stocksGrid := stocksGrid p @ cs\<rparr>)"
proof (induction xs arbitrary: p)
  case Nil
  then show ?case by simp
next
  case (Cons x xs)
  obtain c where c: "summaryCard ts x = Inr c"
    using summaryCard_total by blast
  obtain cs where cs: "length cs = length xs"
    "forEach_stock ts xs (p\<lparr>stocksGrid := stocksGrid p @ [c]\<rparr>)
       = (None, p\<lparr>stocksGrid := stocksGrid p @ [c]\<rparr>
                 \<lparr>stocksGrid := stocksGrid (p\<lparr>stocksGrid := stocksGrid p @ [c]\<rparr>) @ cs\<rparr>)"
    using Cons.IH by blast
  have "length (c # cs) = length (x # xs) \<and>
        forEach_stock ts (x # xs) p = (None, p\<lparr>stocksGrid := stocksGrid p @ (c # cs)\<rparr>)"
    using c cs by simp
  then show ?case by blast
qed

lemma filter_opportunities:
  "length (filter (\<lambda>s. js_ge (score s) 75) rs) = opportunities (map score rs)"
proof (induction rs)
  case Nil
  then show ?case by simp
next
  case (Cons s rs)
  then show ?case by (cases "score s") (simp_all add: js_ge_def)
qed

lemma fetchStocks_success:
  assumes "net (scanUrl ms) = Json (Some d)" and "results d = Some rs"
  shows "\<exists>cs. length cs = length rs \<and>
           fetchStocks ts net ms p =
             p\<lparr>requests := requests p @ [scanUrl ms], stocksGrid := cs,
               opportunityCount := dec_digits (opportunities (map score rs))\<rparr>"
proof -
  let ?p2 = "p\<lparr>requests := requests p @ [scanUrl ms], stocksGrid := [],
               opportunityCount := dec_digits (opportunities (map score rs))\<rparr>"
  obtain cs where cs: "length cs = length rs"
    "forEach_stock ts rs ?p2 = (None, ?p2\<lparr>stocksGrid := stocksGrid ?p2 @ cs\<rparr>)"
    using forEach_stock_appends by blast
  have "fetchStocks ts net ms p = ?p2\<lparr>stocksGrid := stocksGrid ?p2 @ cs\<rparr>"
    using assms cs(2)
    by (simp add: fetchStocks_def fetchStocks_try_def Let_def await_json_def call_filter_def
        filter_opportunities)
  then show ?thesis using cs(1) by auto
qed

lemma fetchStocks_rejected:
  assumes "await_json (net (scanUrl ms)) = Inl e"
  shows "fetchStocks ts net ms p =
           p\<lparr>requests := requests p @ [scanUrl ms],
             console := console p @ [(''Error fetching stocks:'', e)]\<rparr>"
  using assms by (simp add: fetchStocks_def fetchStocks_try_def Let_def)

lemma fetchStocks_requests:
  "requests (fetchStocks ts net ms p) = requests p @ [scanUrl ms]"
proof (cases "net (scanUrl ms)")
  case FetchRejected
  then show ?thesis by (simp add: fetchStocks_rejected await_json_def)
next
  case JsonRejected
  then show ?thesis by (simp add: fetchStocks_rejected await_json_def)
next
  case (Json data)
  show ?thesis
  proof (cases data)
    case None
    with Json show ?thesis
      by (simp add: fetchStocks_def fetchStocks_try_def Let_def await_json_def get_def)
  next
    case (Some d)
    show ?thesis
    proof (cases "results d")
      case None
      with Json Some show ?thesis
        by (simp add: fetchStocks_def fetchStocks_try_def Let_def await_json_def call_filter_def)
    next
      case (Some rs)
      then obtain cs where
        "fetchStocks ts net ms p =
           p\<lparr>requests := requests p @ [scanUrl ms], stocksGrid := cs,
             opportunityCount := dec_digits (opportunities (map score rs))\<rparr>"
        using fetchStocks_success [of net ms d rs] Json \<open>data = Some d\<close> by blast
      then show ?thesis by simp
    qed
  qed
qed

lemma dec_digits_3: "dec_digits 3 = ''3''"
  by code_simp

lemma fetchHome_rejected:
  assumes "await_json (net (API_BASE @ ''/status'')) = Inl e"
  shows "fetchHome net p =
           p\<lparr>requests := requests p @ [API_BASE @ ''/status''],
             console := console p @ [(''Error fetching status:'', e)]\<rparr>"
  using assms by (simp add: fetchHome_def fetchHome_try_def Let_def)

lemma split_js_first: "fst (split_js sep s) = takeWhile (\<lambda>c. c \<noteq> sep) s"
  by (induction s) (simp_all add: split_beta)

lemma takeWhile_proper: "sep \<in> set s \<Longrightarrow> takeWhile (\<lambda>c. c \<noteq> sep) s \<noteq> s"
  by (metis (mono_tags, lifting) takeWhile_eq_all_conv)

lemma fetchHome_totalIndexed:
  assumes "net (API_BASE @ ''/status'') = Json (Some d)" and "db_status d = Some s"
  shows "totalIndexed (fetchHome net p) = fst (split_js (CHR '' '') s)"
  using assms
  by (simp add: fetchHome_def fetchHome_try_def Let_def await_json_def call_split_def
      get_def call_includes_def split: option.splits sum.splits)

subsection \<open>Missing fields\<close>

text \<open>
  C1. For every stock summary and every stock analysis, whatever subset of the optional
  fields and sub-objects is missing (\<^verbatim>\<open>details\<close> itself included), building the
  summary card and building the detail layout do not throw: each returns a value.
\<close>

theorem rendering_never_throws:
  "(\<exists>c. summaryCard ts stock = Inr c) \<and> (\<exists>v. detailView ts (Some a) = Inr v)"
  by (simp add: summaryCard_Inr detailView_Inr Let_def)

text \<open>
  C2, at the input where the code departs from it. With \<^verbatim>\<open>financials.market_cap\<close>
  absent the Market Cap cell is \<^verbatim>\<open>NaNB\<close>, not \<^verbatim>\<open>N/A\<close>: the division turns
  \<^verbatim>\<open>undefined\<close> into NaN and the cell has no fallback, unlike the P/E and
  Debt to Equity cells beside it.
\<close>

theorem market_cap_absent_renders_NaNB:
  "fin_field market_cap a = None \<Longrightarrow>
   \<exists>v. detailView ts (Some a) = Inr v \<and> v_market_cap v = ''NaNB''"
  by (simp add: detailView_Inr Let_def guarded_field toNumber_def divide_1e9_def)

theorem market_cap_absent_renders_NaNB_witness:
  "fin_field market_cap bare_analysis = None \<and>
   (\<exists>v. detailView (\<lambda>_. []) (Some bare_analysis) = Inr v \<and> v_market_cap v = ''NaNB'')"
proof -
  have h: "fin_field market_cap bare_analysis = None"
    by (simp add: fin_field_def financials_of_def bare_analysis_def)
  show ?thesis
    using h market_cap_absent_renders_NaNB [OF h, of "\<lambda>_. []"] by simp
qed




text \<open>
  C4 as stated fails in the detail layout: with no sector the modal shows \<^verbatim>\<open>N/A\<close>.
\<close>

theorem sector_fallback_counterexample:
  "\<exists>v. detailView (\<lambda>_. []) (Some bare_analysis) = Inr v \<and> v_sector v = ''N/A'' \<and>
       v_sector v \<noteq> ''Market''"
  by (simp add: detailView_Inr Let_def bare_analysis_def empty_details_def
      lor_str_def to_text_def)

text \<open>
  C4, amended. For every input with \<^verbatim>\<open>financials.sector\<close> absent, the sector shown
  on the summary card is \<^verbatim>\<open>Market\<close> and the sector shown in the detail layout is
  \<^verbatim>\<open>N/A\<close>.
\<close>

theorem sector_fallbacks:
  "(fin_field sector s = None \<longrightarrow>
      (\<exists>c. summaryCard ts s = Inr c \<and> c_sector c = ''Market'')) \<and>
   (fin_field sector a = None \<longrightarrow>
      (\<exists>v. detailView ts (Some a) = Inr v \<and> v_sector v = ''N/A''))"
  by (simp add: summaryCard_Inr detailView_Inr Let_def guarded_field lor_str_def to_text_def)

theorem sector_fallbacks_witness:
  "fin_field sector bare_stock = None \<and>
   (\<exists>c. summaryCard (\<lambda>_. []) bare_stock = Inr c \<and> c_sector c = ''Market'') \<and>
   fin_field sector bare_analysis = None \<and>
   (\<exists>v. detailView (\<lambda>_. []) (Some bare_analysis) = Inr v \<and> v_sector v = ''N/A'')"
proof -
  have h1: "fin_field sector bare_stock = None"
    by (simp add: fin_field_def financials_of_def bare_stock_def)
  have h2: "fin_field sector bare_analysis = None"
    by (simp add: fin_field_def financials_of_def bare_analysis_def)
  show ?thesis
    using h1 h2 sector_fallbacks [of bare_stock "\<lambda>_. []" bare_analysis] by simp
qed

subsection \<open>Fetches, the count and the modal\<close>

text \<open>
  C5 as stated fails for a body that decodes but has another shape: the writes made
  before the faulting access stay. A scan body without \<^verbatim>\<open>results\<close> empties the
  grid, and a status body without \<^verbatim>\<open>worker\<close> still updates the indexed count.
\<close>

theorem failed_fetch_counterexample:
  "stocksGrid (fetchStocks (\<lambda>_. []) (\<lambda>_. Json (Some \<lparr>results = None\<rparr>)) None sample_page) = [] \<and>
   stocksGrid sample_page \<noteq> [] \<and>
   console (fetchStocks (\<lambda>_. []) (\<lambda>_. Json (Some \<lparr>results = None\<rparr>)) None sample_page)
     = [(''Error fetching stocks:'', TypeError)] \<and>
   totalIndexed (fetchHome (\<lambda>_. Json (Some \<lparr>db_status = Some ''5000 stocks'', worker = None\<rparr>)) sample_page)
     = ''5000'' \<and>
   totalIndexed sample_page = ''4000'' \<and>
   console (fetchHome (\<lambda>_. Json (Some \<lparr>db_status = Some ''5000 stocks'', worker = None\<rparr>)) sample_page)
     = [(''Error fetching status:'', TypeError)]"
  by (simp add: fetchStocks_def fetchStocks_try_def fetchHome_def fetchHome_try_def Let_def
      await_json_def call_filter_def call_split_def get_def sample_page_def)

text \<open>
  C5, amended. For every status fetch and every scan fetch that fails with a network
  error or with a body that is not JSON, the failure is caught and logged and the page
  is left as it was: status labels, result grid, opportunity count and modal are
  unchanged; only the console and the list of requests grow.
\<close>

theorem failed_fetch_leaves_page:
  "(await_json (net (API_BASE @ ''/status'')) = Inl e \<longrightarrow>
      fetchHome net p =
        p\<lparr>requests := requests p @ [API_BASE @ ''/status''],
          console := console p @ [(''Error fetching status:'', e)]\<rparr>) \<and>
   (await_json (net2 (scanUrl ms)) = Inl e2 \<longrightarrow>
      fetchStocks ts net2 ms p =
        p\<lparr>requests := requests p @ [scanUrl ms],
          console := console p @ [(''Error fetching stocks:'', e2)]\<rparr>)"
  by (simp add: fetchHome_rejected fetchStocks_rejected)

theorem failed_fetch_leaves_page_witness:
  "fetchHome (\<lambda>_. FetchRejected) sample_page =
     sample_page\<lparr>requests := [''/api/status''],
       console := [(''Error fetching status:'', NetworkError)]\<rparr> \<and>
   stocksGrid (fetchStocks (\<lambda>_. []) (\<lambda>_. JsonRejected) (Some ''75'') sample_page)
     = stocksGrid sample_page \<and>
   opportunityCount (fetchStocks (\<lambda>_. []) (\<lambda>_. JsonRejected) (Some ''75'') sample_page) = ''7'' \<and>
   console (fetchStocks (\<lambda>_. []) (\<lambda>_. JsonRejected) (Some ''75'') sample_page)
     = [(''Error fetching stocks:'', DecodeError)]"
proof -
  have h1: "await_json ((\<lambda>_. FetchRejected :: SystemStatus response) (API_BASE @ ''/status''))
      = Inl NetworkError"
    by (simp add: await_json_def)
  have h2: "await_json ((\<lambda>_. JsonRejected :: ScanData response) (scanUrl (Some ''75'')))
      = Inl DecodeError"
    by (simp add: await_json_def)
  show ?thesis
    using h1 h2
      failed_fetch_leaves_page [where net = "\<lambda>_. FetchRejected" and e = NetworkError
        and p = sample_page and ?net2.0 = "\<lambda>_. JsonRejected" and ms = "Some ''75''"
        and ?e2.0 = DecodeError and ts = "\<lambda>_. []"]
    by (simp add: sample_page_def API_BASE_def)
qed

text \<open>
  C6. Every scan fetch requests one URL: for the filter value \<^verbatim>\<open>darwinex\<close> the
  alternate endpoint \<^verbatim>\<open>/api/scan-darwinex\<close> with \<^verbatim>\<open>min_score=0\<close>; for every
  other filter value \<open>v\<close> (the numeric ones) the standard endpoint \<^verbatim>\<open>/api/scan\<close>
  with \<^verbatim>\<open>limit=50\<close> and \<^verbatim>\<open>min_score=\<close>\<open>v\<close>; with no argument, \<^verbatim>\<open>min_score=0\<close>.
\<close>

theorem scan_request_routing:
  "scanUrl (Some ''darwinex'') = ''/api/scan-darwinex?limit=50&min_score=0'' \<and>
   (v \<noteq> ''darwinex'' \<longrightarrow> scanUrl (Some v) = ''/api/scan?limit=50&min_score='' @ v) \<and>
   scanUrl None = ''/api/scan?limit=50&min_score=0'' \<and>
   requests (fetchStocks ts net ms p) = requests p @ [scanUrl ms]"
  by (simp add: fetchStocks_requests) (simp add: scanUrl_def API_BASE_def)

theorem scan_request_routing_witness:
  "''75'' \<noteq> ''darwinex'' \<and> scanUrl (Some ''75'') = ''/api/scan?limit=50&min_score=75'' \<and>
   requests (fetchStocks (\<lambda>_. []) (\<lambda>_. FetchRejected) (Some ''darwinex'') sample_page)
     = [''/api/scan-darwinex?limit=50&min_score=0'']"
  using scan_request_routing [where v = "''75''" and ts = "\<lambda>_. []"
      and net = "\<lambda>_. FetchRejected" and ms = "Some ''darwinex''" and p = sample_page]
  by (simp add: sample_page_def)

text \<open>
  C7. For every fetched result set the displayed opportunity count is the number of
  entries of that set with a score of at least 75, whatever was displayed before; for
  the scores 80, 74, 75, 90 it is 3.
\<close>

theorem opportunity_count:
  "net (scanUrl ms) = Json (Some d) \<Longrightarrow> results d = Some rs \<Longrightarrow>
   opportunityCount (fetchStocks ts net ms p) = dec_digits (opportunities (map score rs))"
proof -
  assume "net (scanUrl ms) = Json (Some d)" and "results d = Some rs"
  then obtain cs where
    "fetchStocks ts net ms p =
       p\<lparr>requests := requests p @ [scanUrl ms], stocksGrid := cs,
         opportunityCount := dec_digits (opportunities (map score rs))\<rparr>"
    using fetchStocks_success by blast
  then show ?thesis by simp
qed

theorem opportunity_count_witness:
  "map score sample_stocks = [Fin 80, Fin 74, Fin 75, Fin 90] \<and>
   opportunityCount sample_page = ''7'' \<and>
   opportunityCount
     (fetchStocks (\<lambda>_. []) (\<lambda>_. Json (Some \<lparr>results = Some sample_stocks\<rparr>)) None sample_page)
     = ''3''"
proof -
  have h: "(\<lambda>_. Json (Some \<lparr>results = Some sample_stocks\<rparr>)) (scanUrl None)
      = Json (Some \<lparr>results = Some sample_stocks\<rparr>)"
    by simp
  have r: "results \<lparr>results = Some sample_stocks\<rparr> = Some sample_stocks"
    by simp
  have n: "opportunities (map score sample_stocks) = 3"
    by (simp add: sample_stocks_def)
  show ?thesis
    using opportunity_count [OF h r, where ts = "\<lambda>_. []" and p = sample_page] n
    by (simp add: dec_digits_3) (simp add: sample_stocks_def sample_page_def)
qed

text \<open>
  C8. For every symbol, opening the detail shows the modal with the loading placeholder
  before the response arrives. Handling the response never touches the display state
  of the modal; when the fetch fails the body becomes the error placeholder and the
  modal is still shown, until the close control sets its display to none.
\<close>

theorem modal_opens_loading_then_error:
  "modalBody (showStockDetail_open sy p) = Markup loading_html \<and>
   stockModal_display (showStockDetail_open sy p) = ''block'' \<and>
   stockModal_display (showStockDetail_settle ts icons r q) = stockModal_display q \<and>
   (await_json r = Inl e \<longrightarrow> modalBody (showStockDetail_settle ts icons r q) = Markup error_html) \<and>
   (await_json (net (API_BASE @ ''/analyze/'' @ sy)) = Inl e \<longrightarrow>
      modalBody (showStockDetail ts icons net sy p) = Markup error_html \<and>
      stockModal_display (showStockDetail ts icons net sy p) = ''block'') \<and>
   stockModal_display (closeModal_onclick q) = ''none''"
  by (auto simp add: showStockDetail_def showStockDetail_open_def showStockDetail_settle_def
      showStockDetail_try_def closeModal_onclick_def Let_def
      split: sum.splits option.splits)

theorem modal_opens_loading_then_error_witness:
  "modalBody (showStockDetail (\<lambda>_. []) None (\<lambda>_. FetchRejected) ''AAPL'' sample_page)
     = Markup error_html \<and>
   stockModal_display (showStockDetail (\<lambda>_. []) None (\<lambda>_. FetchRejected) ''AAPL'' sample_page)
     = ''block'' \<and>
   stockModal_display sample_page = ''none''"
proof -
  have h: "await_json ((\<lambda>_. FetchRejected :: StockAnalysis response) (API_BASE @ ''/analyze/'' @ ''AAPL''))
      = Inl NetworkError"
    by (simp add: await_json_def)
  show ?thesis
    using h modal_opens_loading_then_error
      [where sy = "''AAPL''" and p = sample_page and ts = "\<lambda>_. []" and icons = None
        and r = FetchRejected and q = sample_page and e = NetworkError
        and net = "\<lambda>_. FetchRejected"]
    by (simp add: sample_page_def)
qed

text \<open>
  C9. On the summary card a present zero cannot be told from an absent value: a relative
  volume of 0 gives the same card as no relative volume, with the fallback \<^verbatim>\<open>1.00\<close>,
  and a financial score of 0 gives the same card as no financial score, showing 0. In
  the detail layout a relative volume of 0 is rendered \<^verbatim>\<open>0.00\<close>, and only an absent
  one \<^verbatim>\<open>1.00\<close>.
\<close>

theorem zero_is_absent_on_the_card:
  "summaryCard ts (s\<lparr>details := Some (d\<lparr>technicals := Some (t\<lparr>relative_volume := Some (Fin 0)\<rparr>)\<rparr>)\<rparr>)
     = summaryCard ts (s\<lparr>details := Some (d\<lparr>technicals := Some (t\<lparr>relative_volume := None\<rparr>)\<rparr>)\<rparr>) \<and>
   (\<exists>c. summaryCard ts (s\<lparr>details := Some (d\<lparr>technicals := Some (t\<lparr>relative_volume := Some (Fin 0)\<rparr>)\<rparr>)\<rparr>) = Inr c
        \<and> c_rvol c = ''1.00'') \<and>
   summaryCard ts (s\<lparr>details := Some (d\<lparr>financials := Some (f\<lparr>fin_score := Some (Fin 0)\<rparr>)\<rparr>)\<rparr>)
     = summaryCard ts (s\<lparr>details := Some (d\<lparr>financials := Some (f\<lparr>fin_score := None\<rparr>)\<rparr>)\<rparr>) \<and>
   (\<exists>c. summaryCard ts (s\<lparr>details := Some (d\<lparr>financials := Some (f\<lparr>fin_score := Some (Fin 0)\<rparr>)\<rparr>)\<rparr>) = Inr c
        \<and> c_finScore c = Some (Fin 0)) \<and>
   (\<exists>v. detailView ts (Some (a\<lparr>details := Some (d\<lparr>technicals := Some (t\<lparr>relative_volume := Some (Fin 0)\<rparr>)\<rparr>)\<rparr>)) = Inr v
        \<and> v_rvol v = ''0.00'') \<and>
   (\<exists>v. detailView ts (Some (a\<lparr>details := Some (d\<lparr>technicals := Some (t\<lparr>relative_volume := None\<rparr>)\<rparr>)\<rparr>)) = Inr v
        \<and> v_rvol v = ''1.00'')"
  by (simp add: summaryCard_Inr detailView_Inr Let_def truthy_num_def toFixed_2_one
      toFixed_2_zero opt_toFixed_def lor_str_def to_text_def)

text \<open>
  C10. On every status fetch that delivers a \<^verbatim>\<open>db_status\<close>, the indexed-count label
  is the part of \<^verbatim>\<open>db_status\<close> before its first space, which differs from the whole
  string as soon as there is a space.
\<close>

theorem indexed_label_is_first_token:
  "net (API_BASE @ ''/status'') = Json (Some d) \<Longrightarrow> db_status d = Some s \<Longrightarrow>
   totalIndexed (fetchHome net p) = takeWhile (\<lambda>c. c \<noteq> CHR '' '') s \<and>
   (CHR '' '' \<in> set s \<longrightarrow> totalIndexed (fetchHome net p) \<noteq> s)"
  by (simp add: fetchHome_totalIndexed split_js_first takeWhile_proper)

theorem indexed_label_is_first_token_witness:
  "db_status sample_status = Some ''5000 stocks indexed'' \<and>
   totalIndexed (fetchHome (\<lambda>_. Json (Some sample_status)) sample_page) = ''5000''"
proof -
  have h: "(\<lambda>_. Json (Some sample_status)) (API_BASE @ ''/status'') = Json (Some sample_status)"
    by simp
  have s: "db_status sample_status = Some ''5000 stocks indexed''"
    by (simp add: sample_status_def)
  show ?thesis
    using s indexed_label_is_first_token [OF h s, where p = sample_page] by simp
qed

end
